theory Spec2Isabelle
  imports Complex_Main
begin

section \<open>Package jobs: the job registry (internal/jobs/manager.go)\<close>

text \<open>
  \<^verbatim>\<open>type JobStatus string\<close> is a string type with five named constants; a caller may pass
  any string, so the status stays a string here.

  Conventions of the embedding:
  \<^item> a \<^verbatim>\<open>float64\<close> is a \<open>real\<close>: the registry only stores and compares the values, and the
    concrete inputs used below are dyadic, so exact in both readings;
  \<^item> \<^verbatim>\<open>time.Now()\<close> and \<^verbatim>\<open>uuid.New().String()\<close> are inputs (\<open>now\<close>, \<open>newID\<close>) of the
    operations that call them;
  \<^item> a \<^verbatim>\<open>*Job\<close> is the identifier under which the job is stored in \<^verbatim>\<open>m.jobs\<close>;
  \<^item> the mutex-protected methods are atomic state transformers on the manager;
  \<^item> \<^verbatim>\<open>m.handlers\<close> is left out: \<^verbatim>\<open>On\<close> is never called in the repository, so
    \<^verbatim>\<open>callHandlers\<close> starts no goroutine.
\<close>

type_synonym JobStatus = string

definition StatusPending :: JobStatus where "StatusPending = ''pending''"
definition StatusProcessing :: JobStatus where "StatusProcessing = ''processing''"
definition StatusCompleted :: JobStatus where "StatusCompleted = ''completed''"
definition StatusFailed :: JobStatus where "StatusFailed = ''failed''"
definition StatusCanceled :: JobStatus where "StatusCanceled = ''canceled''"

record Job =
  ID :: string
  FileID :: string
  OriginalName :: string
  OutputFormat :: string
  Status :: JobStatus
  Progress :: real
  OutTimeMs :: real
  OutputFilename :: string
  Error :: string
  CreatedAt :: nat
  StartedAt :: "nat option"
  CompletedAt :: "nat option"
  Logs :: "string list"
  LogRingBuffer :: "string list"
  MaxLogLines :: int

text \<open>
  The manager: the job table, the buffered channel \<^verbatim>\<open>queue\<close> (its pending elements, oldest
  first, and its capacity) and the number of workers.
\<close>

record Manager =
  jobs :: "string \<rightharpoonup> Job"
  queue :: "string list"
  queue_cap :: int
  workers :: int

definition NewManager :: "int \<Rightarrow> Manager" where
  "NewManager n = \<lparr>jobs = Map.empty, queue = [], queue_cap = n * 2, workers = n\<rparr>"

definition CreateJob :: "Manager \<Rightarrow> string \<Rightarrow> nat \<Rightarrow> string \<Rightarrow> string \<Rightarrow> string \<Rightarrow> Manager \<times> Job" where
  "CreateJob m newID now fileID originalName outputFormat =
     (let job = \<lparr>ID = newID, FileID = fileID, OriginalName = originalName,
                 OutputFormat = outputFormat, Status = StatusPending, Progress = 0,
                 OutTimeMs = 0, OutputFilename = [], Error = [], CreatedAt = now,
                 StartedAt = None, CompletedAt = None, Logs = [], LogRingBuffer = [],
                 MaxLogLines = 200\<rparr>
      in (m\<lparr>jobs := (jobs m)(ID job \<mapsto> job)\<rparr>, job))"

definition GetJob :: "Manager \<Rightarrow> string \<Rightarrow> Job option" where
  "GetJob m jobID = jobs m jobID"

definition SetProgress :: "Manager \<Rightarrow> string \<Rightarrow> real \<Rightarrow> real \<Rightarrow> Manager" where
  "SetProgress m jobID progress outTimeMs =
     (case jobs m jobID of
        None \<Rightarrow> m
      | Some job \<Rightarrow>
          m\<lparr>jobs := (jobs m)(jobID \<mapsto> job\<lparr>Progress := progress, OutTimeMs := outTimeMs\<rparr>)\<rparr>)"

definition SetStatus :: "Manager \<Rightarrow> nat \<Rightarrow> string \<Rightarrow> JobStatus \<Rightarrow> Manager" where
  "SetStatus m now jobID status =
     (case jobs m jobID of
        None \<Rightarrow> m
      | Some job \<Rightarrow>
          (let job1 = job\<lparr>Status := status\<rparr>;
               job2 = (if status = StatusCompleted \<or> status = StatusFailed \<or> status = StatusCanceled
                       then job1\<lparr>CompletedAt := Some now\<rparr> else job1)
           in m\<lparr>jobs := (jobs m)(jobID \<mapsto> job2)\<rparr>))"

definition SetError :: "Manager \<Rightarrow> nat \<Rightarrow> string \<Rightarrow> string \<Rightarrow> Manager" where
  "SetError m now jobID errMsg =
     (case jobs m jobID of
        None \<Rightarrow> m
      | Some job \<Rightarrow>
          m\<lparr>jobs := (jobs m)(jobID \<mapsto>
                job\<lparr>Error := errMsg, Status := StatusFailed, CompletedAt := Some now\<rparr>)\<rparr>)"

definition SetCompleted :: "Manager \<Rightarrow> nat \<Rightarrow> string \<Rightarrow> string \<Rightarrow> Manager" where
  "SetCompleted m now jobID outputFilename =
     (case jobs m jobID of
        None \<Rightarrow> m
      | Some job \<Rightarrow>
          m\<lparr>jobs := (jobs m)(jobID \<mapsto>
                job\<lparr>Status := StatusCompleted, OutputFilename := outputFilename,
                    Progress := 1, CompletedAt := Some now\<rparr>)\<rparr>)"

text \<open>
  \<^verbatim>\<open>AddLog\<close> appends, drops the first element when the buffer is longer than
  \<^verbatim>\<open>MaxLogLines\<close>, and publishes the buffer as \<^verbatim>\<open>Logs\<close>. After the append the slice is
  not empty, so \<^verbatim>\<open>[1:]\<close> is its tail.
\<close>

definition AddLog :: "Manager \<Rightarrow> string \<Rightarrow> string \<Rightarrow> Manager" where
  "AddLog m jobID logMsg =
     (case jobs m jobID of
        None \<Rightarrow> m
      | Some job \<Rightarrow>
          (let buf1 = LogRingBuffer job @ [logMsg];
               buf2 = (if int (length buf1) > MaxLogLines job then tl buf1 else buf1)
           in m\<lparr>jobs := (jobs m)(jobID \<mapsto> job\<lparr>LogRingBuffer := buf2, Logs := buf2\<rparr>)\<rparr>))"

definition DeleteJob :: "Manager \<Rightarrow> string \<Rightarrow> Manager" where
  "DeleteJob m jobID = m\<lparr>jobs := (jobs m)(jobID := None)\<rparr>"

text \<open>A sequence of \<^verbatim>\<open>AddLog\<close> calls, each with its job identifier and its line.\<close>

fun AddLog_calls :: "Manager \<Rightarrow> (string \<times> string) list \<Rightarrow> Manager" where
  "AddLog_calls m [] = m"
| "AddLog_calls m ((jobID, logMsg) # calls) = AddLog_calls (AddLog m jobID logMsg) calls"

text \<open>The lines a sequence of calls addresses to one job, in call order.\<close>

definition lines_for :: "string \<Rightarrow> (string \<times> string) list \<Rightarrow> string list" where
  "lines_for jobID calls = map snd (filter (\<lambda>c. fst c = jobID) calls)"

text \<open>The last \<open>n\<close> elements of a list, in order.\<close>

definition most_recent :: "nat \<Rightarrow> 'a list \<Rightarrow> 'a list" where
  "most_recent n xs = drop (length xs - n) xs"

section \<open>Package config (internal/config/config.go)\<close>

text \<open>
  The environment is a map from variable names to values. \<^verbatim>\<open>strconv.Atoi\<close> is a library
  function, passed in as \<open>atoi\<close> (\<open>None\<close> when it returns an error). The two
  \<^verbatim>\<open>os.MkdirAll\<close> calls touch the file system only.
\<close>

record Config =
  Port :: string
  Workers :: int
  MaxUploadMB :: int
  PresetMode :: string
  FFmpegPath :: string
  FFprobePath :: string
  UploadDir :: string
  OutputDir :: string
  LogRingBufferSize :: int

definition getEnv :: "(string \<rightharpoonup> string) \<Rightarrow> string \<Rightarrow> string \<Rightarrow> string" where
  "getEnv env key defaultVal = (case env key of Some v \<Rightarrow> v | None \<Rightarrow> defaultVal)"

definition getEnvInt :: "(string \<Rightarrow> int option) \<Rightarrow> (string \<rightharpoonup> string) \<Rightarrow> string \<Rightarrow> int \<Rightarrow> int" where
  "getEnvInt atoi env key defaultVal =
     (case env key of
        Some v \<Rightarrow> (case atoi v of Some intVal \<Rightarrow> intVal | None \<Rightarrow> defaultVal)
      | None \<Rightarrow> defaultVal)"

definition Load :: "(string \<Rightarrow> int option) \<Rightarrow> (string \<rightharpoonup> string) \<Rightarrow> Config" where
  "Load atoi env =
     \<lparr>Port = getEnv env ''PORT'' ''8080'',
      Workers = getEnvInt atoi env ''WORKERS'' 1,
      MaxUploadMB = getEnvInt atoi env ''MAX_UPLOAD_MB'' 500,
      PresetMode = getEnv env ''PRESET_MODE'' ''balanced'',
      FFmpegPath = getEnv env ''FFMPEG_PATH'' ''ffmpeg'',
      FFprobePath = getEnv env ''FFPROBE_PATH'' ''ffprobe'',
      UploadDir = ''uploads'',
      OutputDir = ''outputs'',
      LogRingBufferSize = getEnvInt atoi env ''LOG_RING_BUFFER_SIZE'' 200\<rparr>"

section \<open>Package validator\<close>

text \<open>
  A \<^verbatim>\<open>map[string]bool\<close> literal read with \<^verbatim>\<open>m[key]\<close> is the membership test of its keys.
  A pointer field is an \<open>option\<close>. \<^verbatim>\<open>strings.ToLower\<close> is passed in as \<open>lower\<close>. The
  two trim fields are decoded from JSON, hence finite, and only compared with zero.
\<close>

definition AllowedOutputFormats :: "string \<Rightarrow> bool" where
  "AllowedOutputFormats s =
     (s \<in> set [''mp4'', ''mkv'', ''mov'', ''webm'', ''mp3'', ''aac'', ''wav'', ''flac'', ''ogg'', ''m4a''])"

definition AllowedVideoCodecs :: "string \<Rightarrow> bool" where
  "AllowedVideoCodecs s = (s \<in> set [''copy'', ''libx264'', ''libx265'', ''libvpx-vp9''])"

definition AllowedAudioCodecs :: "string \<Rightarrow> bool" where
  "AllowedAudioCodecs s = (s \<in> set [''copy'', ''aac'', ''libmp3lame'', ''libopus'', ''flac''])"

definition AllowedPresets :: "string \<Rightarrow> bool" where
  "AllowedPresets s =
     (s \<in> set [''ultrafast'', ''superfast'', ''veryfast'', ''faster'', ''fast'', ''medium'',
               ''slow'', ''slower'', ''veryslow''])"

definition AllowedFitModes :: "string \<Rightarrow> bool" where
  "AllowedFitModes s = (s \<in> set [''contain'', ''cover''])"

record ConvertRequest =
  FileID :: string
  OutputFormat :: string
  VideoCodec :: "string option"
  AudioCodec :: "string option"
  VideoBitrate :: "string option"
  AudioBitrate :: "string option"
  CRF :: "int option"
  Preset :: "string option"
  FPS :: "int option"
  RemoveAudio :: bool
  RemoveVideo :: bool
  TrimStart :: "real option"
  TrimDuration :: "real option"
  ResizeWidth :: "int option"
  ResizeHeight :: "int option"
  KeepAspect :: bool
  FitMode :: "string option"
  FastStart :: bool
  StripMetadata :: bool

text \<open>\<open>None\<close> is the \<^verbatim>\<open>nil\<close> error; \<open>Some msg\<close> is the error with its message.\<close>

definition Validate :: "(string \<Rightarrow> string) \<Rightarrow> ConvertRequest \<Rightarrow> string option" where
  "Validate lower r =
     (if ConvertRequest.FileID r = [] then Some ''file_id is required''
      else if ConvertRequest.OutputFormat r = [] then Some ''output_format is required''
      else if \<not> AllowedOutputFormats (lower (ConvertRequest.OutputFormat r))
        then Some (''output_format not allowed: '' @ ConvertRequest.OutputFormat r)
      else if (case ConvertRequest.VideoCodec r of Some c \<Rightarrow> \<not> AllowedVideoCodecs c | None \<Rightarrow> False)
        then Some (''video_codec not allowed: '' @ the (ConvertRequest.VideoCodec r))
      else if (case ConvertRequest.AudioCodec r of Some c \<Rightarrow> \<not> AllowedAudioCodecs c | None \<Rightarrow> False)
        then Some (''audio_codec not allowed: '' @ the (ConvertRequest.AudioCodec r))
      else if (case ConvertRequest.CRF r of Some c \<Rightarrow> c < 18 \<or> c > 35 | None \<Rightarrow> False)
        then Some ''crf must be between 18 and 35''
      else if (case ConvertRequest.Preset r of Some p \<Rightarrow> \<not> AllowedPresets p | None \<Rightarrow> False)
        then Some (''preset not allowed: '' @ the (ConvertRequest.Preset r))
      else if (case ConvertRequest.FPS r of Some f \<Rightarrow> f < 1 \<or> f > 60 | None \<Rightarrow> False)
        then Some ''fps must be between 1 and 60''
      else if (case ConvertRequest.TrimStart r of Some t \<Rightarrow> t < 0 | None \<Rightarrow> False)
        then Some ''trim_start cannot be negative''
      else if (case ConvertRequest.TrimDuration r of Some t \<Rightarrow> t < 0 | None \<Rightarrow> False)
        then Some ''trim_duration cannot be negative''
      else if (case ConvertRequest.ResizeWidth r of Some w \<Rightarrow> w < 1 | None \<Rightarrow> False)
        then Some ''resize_width must be >= 1''
      else if (case ConvertRequest.ResizeHeight r of Some h \<Rightarrow> h < 1 | None \<Rightarrow> False)
        then Some ''resize_height must be >= 1''
      else if (case ConvertRequest.FitMode r of Some f \<Rightarrow> \<not> AllowedFitModes f | None \<Rightarrow> False)
        then Some (''fit_mode not allowed: '' @ the (ConvertRequest.FitMode r))
      else None)"

text \<open>\<^verbatim>\<open>strings.ToLower\<close> on ASCII strings, for concrete evaluation.\<close>

definition ToLower_ascii :: "string \<Rightarrow> string" where
  "ToLower_ascii s =
     map (\<lambda>c. if 65 \<le> (of_char c :: nat) \<and> (of_char c :: nat) \<le> 90
             then char_of ((of_char c :: nat) + 32) else c) s"

section \<open>Package ffmpeg: command builder and progress parsing\<close>

text \<open>
  Library functions: \<^verbatim>\<open>fmt.Sprintf("%d", n)\<close> is \<open>fmt_d\<close>; \<^verbatim>\<open>fmt.Sprintf("%.2f", x)\<close>
  and \<^verbatim>\<open>strconv.ParseFloat(s, 64)\<close> are passed in as \<open>fmt_2f\<close> and \<open>parseFloat\<close>;
  \<^verbatim>\<open>strings.HasPrefix\<close>, \<^verbatim>\<open>strings.HasSuffix\<close>, \<^verbatim>\<open>strings.TrimPrefix\<close> and
  \<^verbatim>\<open>strings.Contains\<close> are defined on byte strings. A Go \<^verbatim>\<open>int\<close> is an \<open>int\<close>: the code
  does no arithmetic on the values it formats.
\<close>

fun digits :: "nat \<Rightarrow> string" where
  "digits n = (if n < 10 then [char_of (48 + n)] else digits (n div 10) @ [char_of (48 + n mod 10)])"

declare digits.simps [simp del]

definition fmt_d :: "int \<Rightarrow> string" where
  "fmt_d i = (if i < 0 then ''-'' @ digits (nat (- i)) else digits (nat i))"

fun HasPrefix :: "string \<Rightarrow> string \<Rightarrow> bool" where
  "HasPrefix s [] = True"
| "HasPrefix [] (p # ps) = False"
| "HasPrefix (c # s) (p # ps) = (c = p \<and> HasPrefix s ps)"


definition TrimPrefix :: "string \<Rightarrow> string \<Rightarrow> string" where
  "TrimPrefix s prefix = (if HasPrefix s prefix then drop (length prefix) s else s)"

fun Contains :: "string \<Rightarrow> string \<Rightarrow> bool" where
  "Contains [] substr = (substr = [])"
| "Contains (c # s) substr = (HasPrefix (c # s) substr \<or> Contains s substr)"

record ConvertOptions =
  InputPath :: string
  OutputPath :: string
  FFmpegPath :: string
  FFprobePath :: string
  VideoCodec :: "string option"
  AudioCodec :: "string option"
  VideoBitrate :: "string option"
  AudioBitrate :: "string option"
  CRF :: "int option"
  Preset :: "string option"
  FPS :: "int option"
  RemoveAudio :: bool
  RemoveVideo :: bool
  TrimStart :: "real option"
  TrimDuration :: "real option"
  ResizeWidth :: "int option"
  ResizeHeight :: "int option"
  KeepAspect :: bool
  FitMode :: "string option"
  FastStart :: bool
  StripMetadata :: bool
  PresetMode :: string

definition getPreset :: "ConvertOptions \<Rightarrow> string" where
  "getPreset opts =
     (case Preset opts of
        Some p \<Rightarrow> p
      | None \<Rightarrow>
          (if PresetMode opts = ''low_cpu'' then ''veryfast''
           else if PresetMode opts = ''balanced'' then ''fast''
           else if PresetMode opts = ''quality'' then ''slow''
           else ''fast''))"

text \<open>The Go literal \<^verbatim>\<open>"\\,"\<close> is a backslash followed by a comma.\<close>

definition bs_comma :: string where
  "bs_comma = [CHR 0x5C, CHR '','']"

definition buildScaleFilter :: "ConvertOptions \<Rightarrow> string" where
  "buildScaleFilter opts =
     (if ResizeWidth opts = None \<and> ResizeHeight opts = None then []
      else
        (let w = (case ResizeWidth opts of Some x \<Rightarrow> x | None \<Rightarrow> - 1);
             h = (case ResizeHeight opts of Some x \<Rightarrow> x | None \<Rightarrow> - 1)
         in if \<not> KeepAspect opts then ''scale='' @ fmt_d w @ '':'' @ fmt_d h
            else if FitMode opts = Some ''cover'' \<and> w > 0 \<and> h > 0 then
              ''scale=iw*min(1'' @ bs_comma @ ''min('' @ fmt_d w @ ''/iw'' @ bs_comma @ fmt_d h
                @ ''/ih)):ih*min(1'' @ bs_comma @ ''min('' @ fmt_d w @ ''/iw'' @ bs_comma @ fmt_d h
                @ ''/ih)),pad='' @ fmt_d w @ '':'' @ fmt_d h @ '':(ow-iw)/2:(oh-ih)/2''
            else if w > 0 \<and> h > 0 then
              ''scale=min('' @ fmt_d w @ bs_comma @ ''iw*'' @ fmt_d h @ ''/ih):min('' @ fmt_d h
                @ bs_comma @ ''ih*'' @ fmt_d w @ ''/iw),pad='' @ fmt_d w @ '':'' @ fmt_d h
                @ '':(ow-iw)/2:(oh-ih)/2''
            else if w > 0 then ''scale='' @ fmt_d w @ '':-1''
            else if h > 0 then ''scale=-1:'' @ fmt_d h
            else []))"





text \<open>
  The scanner loop of \<^verbatim>\<open>Convert\<close> (lines 798 to 810) over the lines of the subprocess's
  standard output. The result is the list of calls made to the progress handler, each
  with its three arguments \<open>(current, total, outTimeMs)\<close>. \<open>hasHandler\<close> is
  \<^verbatim>\<open>progressHandler != nil\<close>; \<open>totalDuration\<close> is what the probe gave.
\<close>

fun scan_progress :: "(string \<Rightarrow> real option) \<Rightarrow> bool \<Rightarrow> real option \<Rightarrow> string list \<Rightarrow> (real \<times> real \<times> real) list" where
  "scan_progress parseFloat hasHandler totalDuration [] = []"
| "scan_progress parseFloat hasHandler totalDuration (line # rest) =
     (if hasHandler \<and> HasPrefix line ''out_time_ms='' then
        (case parseFloat (TrimPrefix line ''out_time_ms='') of
           Some outTimeMs \<Rightarrow>
             (case totalDuration of
                Some d \<Rightarrow> if d > 0 then [((outTimeMs / 1000) / d, 1, outTimeMs)] else []
              | None \<Rightarrow> [])
         | None \<Rightarrow> [])
      else [])
     @ scan_progress parseFloat hasHandler totalDuration rest"

text \<open>
  \<^verbatim>\<open>strconv.ParseFloat\<close> on the decimal integer literals (an optional minus sign and
  digits), for concrete evaluation.
\<close>

fun digits_value :: "nat \<Rightarrow> string \<Rightarrow> nat option" where
  "digits_value acc [] = Some acc"
| "digits_value acc (c # cs) =
     (if 48 \<le> (of_char c :: nat) \<and> (of_char c :: nat) \<le> 57
      then digits_value (10 * acc + (of_char c - 48)) cs else None)"

definition ParseFloat_integer :: "string \<Rightarrow> real option" where
  "ParseFloat_integer s =
     (case s of
        [] \<Rightarrow> None
      | c # cs \<Rightarrow>
          if c = CHR ''-'' then (if cs = [] then None else map_option (\<lambda>n. - real n) (digits_value 0 cs))
          else map_option real (digits_value 0 s))"

section \<open>The worker pool and the convert handler\<close>

text \<open>
  \<^verbatim>\<open>QueueJob\<close> sends on the buffered channel: the send goes through while the buffer has
  room and blocks otherwise (\<open>None\<close>; the rendezvous of an unbuffered channel is not
  modelled). A worker's receive takes the oldest element and runs \<^verbatim>\<open>processJob\<close> on it,
  which sets the status and the start time and, as its closing comment says, starts no
  conversion.
\<close>

definition QueueJob :: "Manager \<Rightarrow> string \<Rightarrow> Manager option" where
  "QueueJob m job =
     (if int (length (queue m)) < queue_cap m then Some (m\<lparr>queue := queue m @ [job]\<rparr>) else None)"

definition processJob :: "Manager \<Rightarrow> nat \<Rightarrow> string \<Rightarrow> Manager" where
  "processJob m now jobID =
     (let m1 = SetStatus m now jobID StatusProcessing
      in case jobs m1 jobID of
           None \<Rightarrow> m1
         | Some job \<Rightarrow> m1\<lparr>jobs := (jobs m1)(jobID \<mapsto> job\<lparr>StartedAt := Some now\<rparr>)\<rparr>)"

definition worker_receive :: "Manager \<Rightarrow> nat \<Rightarrow> Manager option" where
  "worker_receive m now =
     (case queue m of [] \<Rightarrow> None | job # rest \<Rightarrow> Some (processJob (m\<lparr>queue := rest\<rparr>) now job))"

text \<open>
  The server: configuration, the storage table (file identifier to original name and
  storage path), the job manager, and the goroutines \<^verbatim>\<open>go h.performConvert(...)\<close> has
  started: \<open>spawned\<close> holds the jobs whose goroutine has not run yet, \<open>converting\<close> those
  whose goroutine is between its first statement and its return, that is, running its
  conversion.
\<close>

record Server =
  cfg :: Config
  files :: "string \<rightharpoonup> string \<times> string"
  jobManager :: Manager
  spawned :: "string list"
  converting :: "string list"

definition main_init :: "(string \<Rightarrow> int option) \<Rightarrow> (string \<rightharpoonup> string) \<Rightarrow> Server" where
  "main_init atoi env =
     (let c = Load atoi env
      in \<lparr>cfg = c, files = Map.empty, jobManager = NewManager (Workers c),
          spawned = [], converting = []\<rparr>)"

text \<open>
  \<^verbatim>\<open>Handler.Convert\<close>: the request body parsed (\<open>None\<close> when the parser fails), validated,
  the file looked up, the job created and its goroutine started. The result is the new
  server state and the HTTP status code.
\<close>

definition Handler_Convert :: "(string \<Rightarrow> string) \<Rightarrow> Server \<Rightarrow> string \<Rightarrow> nat \<Rightarrow> ConvertRequest option \<Rightarrow> Server \<times> nat" where
  "Handler_Convert lower srv newID now body =
     (case body of
        None \<Rightarrow> (srv, 400)
      | Some req \<Rightarrow>
          (case Validate lower req of
             Some err \<Rightarrow> (srv, 400)
           | None \<Rightarrow>
               (case files srv (ConvertRequest.FileID req) of
                  None \<Rightarrow> (srv, 404)
                | Some uf \<Rightarrow>
                    (let (m, job) = CreateJob (jobManager srv) newID now (ConvertRequest.FileID req)
                                      (fst uf) (ConvertRequest.OutputFormat req)
                     in (srv\<lparr>jobManager := m, spawned := spawned srv @ [ID job]\<rparr>, 200)))))"

text \<open>
  \<^verbatim>\<open>performConvert\<close> in three parts: its statements before \<^verbatim>\<open>ffmpeg.Convert\<close>, the progress
  handler it passes, and its statements after \<^verbatim>\<open>ffmpeg.Convert\<close> has returned (\<open>err\<close> is
  the error's text, \<open>None\<close> for \<^verbatim>\<open>nil\<close>). The output name starts with \<^verbatim>\<open>job.ID[:8]\<close>; the
  identifier is a UUID string of 36 characters, so the slice is in range.
\<close>

definition performConvert_start :: "Server \<Rightarrow> nat \<Rightarrow> string \<Rightarrow> Server" where
  "performConvert_start srv now jobID =
     (if jobID \<in> set (spawned srv) then
        srv\<lparr>jobManager :=
              SetStatus (AddLog (jobManager srv) jobID ''Starting conversion...'') now jobID
                StatusProcessing,
            spawned := remove1 jobID (spawned srv),
            converting := converting srv @ [jobID]\<rparr>
      else srv)"

definition progressHandler :: "Server \<Rightarrow> string \<Rightarrow> real \<times> real \<times> real \<Rightarrow> Server" where
  "progressHandler srv jobID ev =
     (case ev of (current, tot, outTimeMs) \<Rightarrow>
        srv\<lparr>jobManager := SetProgress (jobManager srv) jobID current outTimeMs\<rparr>)"

definition performConvert_finish :: "Server \<Rightarrow> nat \<Rightarrow> string \<Rightarrow> string \<Rightarrow> string option \<Rightarrow> Server" where
  "performConvert_finish srv now jobID outputFormat err =
     (if jobID \<in> set (converting srv) then
        (let outputName = take 8 jobID @ ''_converted.'' @ outputFormat;
             m = (case err of
                    Some e \<Rightarrow> SetError (AddLog (jobManager srv) jobID (''Error: '' @ e)) now jobID e
                  | None \<Rightarrow>
                      SetCompleted (AddLog (jobManager srv) jobID ''Conversion completed successfully'')
                        now jobID outputName)
         in srv\<lparr>jobManager := m, converting := remove1 jobID (converting srv)\<rparr>)
      else srv)"

text \<open>The status, progress and log of a stored job, \<open>None\<close> for an unknown identifier.\<close>

definition status_of :: "Manager \<Rightarrow> string \<Rightarrow> JobStatus option" where
  "status_of m jobID = map_option Status (jobs m jobID)"

definition progress_of :: "Manager \<Rightarrow> string \<Rightarrow> real option" where
  "progress_of m jobID = map_option Progress (jobs m jobID)"


text \<open>
  The state of one job's log after the lines \<open>hist\<close> have been appended to it: capacity
  \<open>cap\<close>, and buffer and published log both holding the last \<open>cap\<close> lines.
\<close>

definition log_inv :: "Manager \<Rightarrow> string \<Rightarrow> nat \<Rightarrow> string list \<Rightarrow> bool" where
  "log_inv m jobID cap hist =
     (case jobs m jobID of
        None \<Rightarrow> False
      | Some job \<Rightarrow>
          MaxLogLines job = int cap \<and> LogRingBuffer job = most_recent cap hist
          \<and> Logs job = most_recent cap hist)"

text \<open>Concrete inputs: a valid request for a WebM conversion, and plain options.\<close>

definition request_webm :: ConvertRequest where
  "request_webm =
     \<lparr>ConvertRequest.FileID = ''f1'', ConvertRequest.OutputFormat = ''webm'',
      ConvertRequest.VideoCodec = Some ''libvpx-vp9'', ConvertRequest.AudioCodec = None,
      ConvertRequest.VideoBitrate = None, ConvertRequest.AudioBitrate = None,
      ConvertRequest.CRF = Some 28, ConvertRequest.Preset = None, ConvertRequest.FPS = None,
      ConvertRequest.RemoveAudio = False, ConvertRequest.RemoveVideo = False,
      ConvertRequest.TrimStart = None, ConvertRequest.TrimDuration = None,
      ConvertRequest.ResizeWidth = None, ConvertRequest.ResizeHeight = None,
      ConvertRequest.KeepAspect = False, ConvertRequest.FitMode = None,
      ConvertRequest.FastStart = False, ConvertRequest.StripMetadata = False\<rparr>"

definition options_plain :: ConvertOptions where
  "options_plain =
     \<lparr>InputPath = ''uploads/f1.mp4'', OutputPath = ''outputs/job-0001_converted.mp4'',
      FFmpegPath = ''ffmpeg'', FFprobePath = ''ffprobe'',
      VideoCodec = None, AudioCodec = None, VideoBitrate = None, AudioBitrate = None,
      CRF = None, Preset = None, FPS = None, RemoveAudio = False, RemoveVideo = False,
      TrimStart = None, TrimDuration = None, ResizeWidth = None, ResizeHeight = None,
      KeepAspect = False, FitMode = None, FastStart = False, StripMetadata = False,
      PresetMode = ''balanced''\<rparr>"

text \<open>
  What the request validation is claimed to accept: the two required fields present, the
  output format allowed, and every optional field that is present within its allowed set
  or range.
\<close>

definition fields_valid :: "(string \<Rightarrow> string) \<Rightarrow> ConvertRequest \<Rightarrow> bool" where
  "fields_valid lower r =
     (ConvertRequest.FileID r \<noteq> [] \<and> ConvertRequest.OutputFormat r \<noteq> []
      \<and> AllowedOutputFormats (lower (ConvertRequest.OutputFormat r))
      \<and> (case ConvertRequest.VideoCodec r of None \<Rightarrow> True | Some c \<Rightarrow> AllowedVideoCodecs c)
      \<and> (case ConvertRequest.AudioCodec r of None \<Rightarrow> True | Some c \<Rightarrow> AllowedAudioCodecs c)
      \<and> (case ConvertRequest.CRF r of None \<Rightarrow> True | Some c \<Rightarrow> 18 \<le> c \<and> c \<le> 35)
      \<and> (case ConvertRequest.Preset r of None \<Rightarrow> True | Some p \<Rightarrow> AllowedPresets p)
      \<and> (case ConvertRequest.FPS r of None \<Rightarrow> True | Some f \<Rightarrow> 1 \<le> f \<and> f \<le> 60)
      \<and> (case ConvertRequest.TrimStart r of None \<Rightarrow> True | Some t \<Rightarrow> 0 \<le> t)
      \<and> (case ConvertRequest.TrimDuration r of None \<Rightarrow> True | Some t \<Rightarrow> 0 \<le> t)
      \<and> (case ConvertRequest.ResizeWidth r of None \<Rightarrow> True | Some w \<Rightarrow> 1 \<le> w)
      \<and> (case ConvertRequest.ResizeHeight r of None \<Rightarrow> True | Some h \<Rightarrow> 1 \<le> h)
      \<and> (case ConvertRequest.FitMode r of None \<Rightarrow> True | Some f \<Rightarrow> AllowedFitModes f))"





section \<open>The log ring\<close>

lemma most_recent_snoc:
  "most_recent n (xs @ [x]) =
     (if length xs + 1 > n then tl (most_recent n xs @ [x]) else most_recent n xs @ [x])"
proof (cases "length xs + 1 > n")
  case True
  have "drop (Suc (length xs - n)) (xs @ [x]) = tl (drop (length xs - n) (xs @ [x]))"
    by (simp only: drop_Suc tl_drop)
  also have "\<dots> = tl (drop (length xs - n) xs @ [x])"
    by simp
  finally have "tl (drop (length xs - n) xs @ [x]) = drop (Suc (length xs - n)) (xs @ [x])"
    by simp
  moreover have "Suc (length xs - n) = Suc (length xs) - n"
    using True by simp
  ultimately show ?thesis using True by (simp add: most_recent_def)
next
  case False
  then show ?thesis by (simp add: most_recent_def)
qed

lemma length_most_recent: "length (most_recent n xs) = min n (length xs)"
  by (simp add: most_recent_def)

lemma AddLog_other: "k \<noteq> jobID \<Longrightarrow> jobs (AddLog m jobID msg) k = jobs m k"
  by (simp add: AddLog_def Let_def split: option.splits)

lemma log_inv_AddLog:
  assumes "log_inv m k cap hist"
  shows "log_inv (AddLog m jobID msg) k cap (if jobID = k then hist @ [msg] else hist)"
proof (cases "jobID = k")
  case False
  then show ?thesis using assms by (simp add: log_inv_def AddLog_other)
next
  case True
  from assms obtain job where j: "jobs m k = Some job" "MaxLogLines job = int cap"
      "LogRingBuffer job = most_recent cap hist"
    by (auto simp: log_inv_def split: option.splits)
  show ?thesis
    using True j
    by (simp add: log_inv_def AddLog_def Let_def most_recent_snoc length_most_recent)
qed

lemma log_inv_calls:
  "log_inv m k cap hist \<Longrightarrow> log_inv (AddLog_calls m calls) k cap (hist @ lines_for k calls)"
proof (induction calls arbitrary: m hist)
  case Nil
  then show ?case by (simp add: lines_for_def)
next
  case (Cons c calls)
  obtain jobID msg where c: "c = (jobID, msg)" by (cases c)
  have "log_inv (AddLog m jobID msg) k cap (if jobID = k then hist @ [msg] else hist)"
    by (rule log_inv_AddLog [OF Cons.prems])
  from Cons.IH [OF this] show ?case
    by (cases "jobID = k") (simp_all add: c lines_for_def)
qed

lemma log_inv_CreateJob: "log_inv (fst (CreateJob m newID now fileID name fmt)) newID 200 []"
  by (simp add: log_inv_def CreateJob_def Let_def most_recent_def)



section \<open>Status and progress writers of the registry\<close>

lemmas status_defs = StatusPending_def StatusProcessing_def StatusCompleted_def
  StatusFailed_def StatusCanceled_def

text \<open>
  Claim C1, as stated, fails. None of the setters reads the status before it writes: on
  a job that \<^verbatim>\<open>SetCompleted\<close> has completed, \<^verbatim>\<open>SetStatus\<close> writes \<^verbatim>\<open>pending\<close> or
  \<^verbatim>\<open>processing\<close> (so \<^verbatim>\<open>processing\<close> is entered from \<^verbatim>\<open>completed\<close>), and \<^verbatim>\<open>SetError\<close>
  writes \<^verbatim>\<open>failed\<close>.
\<close>

theorem terminal_status_overwritten:
  "(let m = SetCompleted (fst (CreateJob (NewManager 1) ''j1'' 0 ''f1'' ''a.mp4'' ''webm'')) 1
              ''j1'' ''out.webm''
    in status_of m ''j1'' = Some StatusCompleted
       \<and> status_of (SetStatus m 2 ''j1'' StatusPending) ''j1'' = Some StatusPending
       \<and> status_of (SetStatus m 2 ''j1'' StatusProcessing) ''j1'' = Some StatusProcessing
       \<and> status_of (SetError m 2 ''j1'' ''late error'') ''j1'' = Some StatusFailed)
   \<and> StatusPending \<noteq> StatusCompleted \<and> StatusProcessing \<noteq> StatusCompleted
   \<and> StatusFailed \<noteq> StatusCompleted"
  by (simp add: Let_def status_of_def SetCompleted_def SetStatus_def SetError_def CreateJob_def
      NewManager_def status_defs)

text \<open>
  Claim C1, amended. \<^verbatim>\<open>SetProgress\<close> and \<^verbatim>\<open>AddLog\<close> leave the status of every job as it is,
  so a late progress or log write cannot bring a terminal job back. \<^verbatim>\<open>SetStatus\<close>,
  \<^verbatim>\<open>SetError\<close> and \<^verbatim>\<open>SetCompleted\<close> write the given status, \<^verbatim>\<open>failed\<close> and \<^verbatim>\<open>completed\<close>
  on a stored job whatever its status was, and change no other job.
\<close>

theorem status_writers:
  "status_of (SetProgress m jobID p t) k = status_of m k
   \<and> status_of (AddLog m jobID msg) k = status_of m k
   \<and> status_of (SetStatus m now jobID s) k
       = (if k = jobID then map_option (\<lambda>_. s) (status_of m k) else status_of m k)
   \<and> status_of (SetError m now jobID e) k
       = (if k = jobID then map_option (\<lambda>_. StatusFailed) (status_of m k) else status_of m k)
   \<and> status_of (SetCompleted m now jobID out) k
       = (if k = jobID then map_option (\<lambda>_. StatusCompleted) (status_of m k) else status_of m k)"
  by (simp add: status_of_def SetProgress_def AddLog_def SetStatus_def SetError_def
      SetCompleted_def Let_def split: option.splits)

text \<open>
  Claim C2, as stated, fails. \<^verbatim>\<open>SetProgress\<close> stores the fraction it is given: on a
  processing job a call with 1/4 after a call with 1/2 lowers the progress. And
  \<^verbatim>\<open>SetStatus\<close> with \<^verbatim>\<open>completed\<close> leaves the progress at 1/4.
\<close>

theorem progress_not_monotone:
  "(let m1 = SetProgress (SetStatus (fst (CreateJob (NewManager 1) ''j1'' 0 ''f1'' ''a.mp4'' ''webm''))
                1 ''j1'' StatusProcessing) ''j1'' (1/2) 500;
        m2 = SetProgress m1 ''j1'' (1/4) 250;
        m3 = SetStatus m2 2 ''j1'' StatusCompleted
    in status_of m1 ''j1'' = Some StatusProcessing \<and> progress_of m1 ''j1'' = Some (1/2)
       \<and> status_of m2 ''j1'' = Some StatusProcessing \<and> progress_of m2 ''j1'' = Some (1/4)
       \<and> status_of m3 ''j1'' = Some StatusCompleted \<and> progress_of m3 ''j1'' = Some (1/4))
   \<and> (1/4 :: real) < 1/2 \<and> (1/4 :: real) \<noteq> 1"
  by (simp add: Let_def status_of_def progress_of_def SetProgress_def SetStatus_def CreateJob_def
      NewManager_def status_defs)

text \<open>
  Claim C2, amended. \<^verbatim>\<open>SetProgress\<close> records exactly the fraction it is given, with no
  comparison to the previous one. \<^verbatim>\<open>SetCompleted\<close> sets the status to \<^verbatim>\<open>completed\<close> and
  the progress to exactly 1. \<^verbatim>\<open>SetStatus\<close>, \<^verbatim>\<open>SetError\<close> and \<^verbatim>\<open>AddLog\<close> leave the
  progress as it is.
\<close>

theorem progress_writers:
  "progress_of (SetProgress m jobID p t) k
       = (if k = jobID then map_option (\<lambda>_. p) (progress_of m k) else progress_of m k)
   \<and> progress_of (SetCompleted m now jobID out) k
       = (if k = jobID then map_option (\<lambda>_. 1) (progress_of m k) else progress_of m k)
   \<and> status_of (SetCompleted m now jobID out) jobID
       = map_option (\<lambda>_. StatusCompleted) (status_of m jobID)
   \<and> progress_of (SetStatus m now jobID s) k = progress_of m k
   \<and> progress_of (SetError m now jobID e) k = progress_of m k
   \<and> progress_of (AddLog m jobID msg) k = progress_of m k"
  by (simp add: status_of_def progress_of_def SetProgress_def AddLog_def SetStatus_def SetError_def
      SetCompleted_def Let_def split: option.splits)


section \<open>The log capacity and the configuration\<close>

lemma log_inv_MaxLogLines: "log_inv m k cap hist \<Longrightarrow> map_option MaxLogLines (jobs m k) = Some (int cap)"
  by (auto simp: log_inv_def split: option.splits)

text \<open>
  Claim C9. Every job \<^verbatim>\<open>CreateJob\<close> makes has \<^verbatim>\<open>MaxLogLines\<close> 200, and \<^verbatim>\<open>AddLog\<close> never
  changes it. The configuration does not reach it: the manager \<^verbatim>\<open>main\<close> builds is the same
  whatever \<^verbatim>\<open>LOG_RING_BUFFER_SIZE\<close> is set to, and the convert handler does the same to the
  server whatever its configuration is.
\<close>

theorem log_capacity_ignores_config:
  "MaxLogLines (snd (CreateJob m newID now fileID name fmt)) = 200
   \<and> map_option MaxLogLines
         (jobs (AddLog_calls (fst (CreateJob m newID now fileID name fmt)) calls) newID) = Some 200
   \<and> jobManager (main_init atoi (env(''LOG_RING_BUFFER_SIZE'' \<mapsto> v))) = jobManager (main_init atoi env)
   \<and> Handler_Convert lower (srv\<lparr>cfg := c\<rparr>) newID now body
       = (case Handler_Convert lower srv newID now body of (s, code) \<Rightarrow> (s\<lparr>cfg := c\<rparr>, code))"
proof -
  have a: "MaxLogLines (snd (CreateJob m newID now fileID name fmt)) = 200"
    by (simp add: CreateJob_def Let_def)
  have b: "map_option MaxLogLines
         (jobs (AddLog_calls (fst (CreateJob m newID now fileID name fmt)) calls) newID) = Some 200"
    using log_inv_MaxLogLines [OF log_inv_calls [OF log_inv_CreateJob]] by simp
  have c: "jobManager (main_init atoi (env(''LOG_RING_BUFFER_SIZE'' \<mapsto> v))) = jobManager (main_init atoi env)"
    by (simp add: main_init_def Load_def Let_def getEnvInt_def)
  have d: "Handler_Convert lower (srv\<lparr>cfg := c\<rparr>) newID now body
       = (case Handler_Convert lower srv newID now body of (s, code) \<Rightarrow> (s\<lparr>cfg := c\<rparr>, code))"
    by (simp add: Handler_Convert_def Let_def split: option.splits prod.splits)
  from a b c d show ?thesis by blast
qed

section \<open>Conversions and the worker pool\<close>

lemma Validate_request_webm: "Validate ToLower_ascii request_webm = None"
  by (simp add: Validate_def request_webm_def ToLower_ascii_def AllowedOutputFormats_def
      AllowedVideoCodecs_def)

lemma manager_fields_AddLog:
  "queue (AddLog m j msg) = queue m" "queue_cap (AddLog m j msg) = queue_cap m"
  "workers (AddLog m j msg) = workers m"
  by (simp_all add: AddLog_def Let_def split: option.splits)

lemma manager_fields_SetStatus:
  "queue (SetStatus m t j s) = queue m" "queue_cap (SetStatus m t j s) = queue_cap m"
  "workers (SetStatus m t j s) = workers m"
  by (simp_all add: SetStatus_def Let_def split: option.splits)

lemma manager_fields_SetError:
  "queue (SetError m t j e) = queue m" "queue_cap (SetError m t j e) = queue_cap m"
  "workers (SetError m t j e) = workers m"
  by (simp_all add: SetError_def split: option.splits)

lemma manager_fields_SetCompleted:
  "queue (SetCompleted m t j out) = queue m" "queue_cap (SetCompleted m t j out) = queue_cap m"
  "workers (SetCompleted m t j out) = workers m"
  by (simp_all add: SetCompleted_def split: option.splits)

lemma manager_fields_CreateJob:
  "queue (fst (CreateJob m i t f n fmt)) = queue m"
  "queue_cap (fst (CreateJob m i t f n fmt)) = queue_cap m"
  "workers (fst (CreateJob m i t f n fmt)) = workers m"
  by (simp_all add: CreateJob_def Let_def)

lemmas manager_fields = manager_fields_AddLog manager_fields_SetStatus manager_fields_SetError
  manager_fields_SetCompleted manager_fields_CreateJob

lemma status_of_CreateJob:
  "status_of (fst (CreateJob m i t f n fmt)) k = (if k = i then Some StatusPending else status_of m k)"
  by (simp add: status_of_def CreateJob_def Let_def)

lemma status_of_AddLog: "status_of (AddLog m j msg) k = status_of m k"
  by (simp add: status_of_def AddLog_def Let_def split: option.splits)

lemma status_of_SetStatus:
  "status_of (SetStatus m t j s) k
     = (if k = j then map_option (\<lambda>_. s) (status_of m k) else status_of m k)"
  by (simp add: status_of_def SetStatus_def Let_def split: option.splits)

lemma Handler_Convert_ok:
  assumes "Validate lower req = None" and "files srv (ConvertRequest.FileID req) = Some uf"
  shows "Handler_Convert lower srv newID now (Some req)
     = (srv\<lparr>jobManager := fst (CreateJob (jobManager srv) newID now (ConvertRequest.FileID req)
                                (fst uf) (ConvertRequest.OutputFormat req)),
            spawned := spawned srv @ [newID]\<rparr>, 200)"
  using assms by (simp add: Handler_Convert_def CreateJob_def Let_def)

lemma performConvert_start_spawned:
  assumes "jobID \<in> set (spawned srv)"
  shows "performConvert_start srv now jobID
     = srv\<lparr>jobManager := SetStatus (AddLog (jobManager srv) jobID ''Starting conversion...'') now
                             jobID StatusProcessing,
           spawned := remove1 jobID (spawned srv), converting := converting srv @ [jobID]\<rparr>"
  using assms by (simp add: performConvert_start_def)

text \<open>
  Claim C3 fails on the code. \<^verbatim>\<open>Handler.Convert\<close> starts \<^verbatim>\<open>performConvert\<close> in a goroutine of
  its own and never calls \<^verbatim>\<open>QueueJob\<close>; the pool's \<^verbatim>\<open>processJob\<close> runs no conversion. With
  the default configuration (one worker, queue capacity 2), two accepted requests give two
  conversions running at once, both jobs \<^verbatim>\<open>processing\<close>, while the queue is empty and the
  worker has nothing to receive. No step of the handler or of \<^verbatim>\<open>performConvert\<close> changes
  the queue.
\<close>

theorem conversions_bypass_pool:
  "(let srv0 = (main_init atoi Map.empty)\<lparr>files := [''f1'' \<mapsto> (''a.mp4'', ''uploads/f1.mp4'')]\<rparr>;
        srv1 = fst (Handler_Convert ToLower_ascii srv0 ''job-0001'' 1 (Some request_webm));
        srv2 = fst (Handler_Convert ToLower_ascii srv1 ''job-0002'' 2 (Some request_webm));
        srv3 = performConvert_start srv2 3 ''job-0001'';
        srv4 = performConvert_start srv3 4 ''job-0002''
    in workers (jobManager srv4) = 1
       \<and> queue_cap (jobManager srv4) = 2
       \<and> converting srv4 = [''job-0001'', ''job-0002'']
       \<and> status_of (jobManager srv4) ''job-0001'' = Some StatusProcessing
       \<and> status_of (jobManager srv4) ''job-0002'' = Some StatusProcessing
       \<and> queue (jobManager srv4) = []
       \<and> worker_receive (jobManager srv4) 5 = None)
   \<and> queue (jobManager (fst (Handler_Convert lower srv newID now body))) = queue (jobManager srv)
   \<and> queue (jobManager (performConvert_start srv now jobID)) = queue (jobManager srv)
   \<and> queue (jobManager (performConvert_finish srv now jobID fmt err)) = queue (jobManager srv)"
proof -
  have a: "queue (jobManager (fst (Handler_Convert lower srv newID now body))) = queue (jobManager srv)"
    by (simp add: Handler_Convert_def CreateJob_def Let_def split: option.splits prod.splits)
  have b: "queue (jobManager (performConvert_start srv now jobID)) = queue (jobManager srv)"
    by (simp add: performConvert_start_def manager_fields)
  have c: "queue (jobManager (performConvert_finish srv now jobID fmt err)) = queue (jobManager srv)"
    by (simp add: performConvert_finish_def Let_def manager_fields split: option.splits)
  define srv0 where "srv0 = (main_init atoi Map.empty)\<lparr>files := [''f1'' \<mapsto> (''a.mp4'', ''uploads/f1.mp4'')]\<rparr>"
  define srv1 where "srv1 = fst (Handler_Convert ToLower_ascii srv0 ''job-0001'' 1 (Some request_webm))"
  define srv2 where "srv2 = fst (Handler_Convert ToLower_ascii srv1 ''job-0002'' 2 (Some request_webm))"
  define srv3 where "srv3 = performConvert_start srv2 3 ''job-0001''"
  define srv4 where "srv4 = performConvert_start srv3 4 ''job-0002''"
  have f: "ConvertRequest.FileID request_webm = ''f1''"
    by (simp add: request_webm_def)
  have s01: "files srv0 ''f1'' = Some (''a.mp4'', ''uploads/f1.mp4'')"
    by (simp add: srv0_def)
  have s02: "spawned srv0 = []" "converting srv0 = []"
    by (simp_all add: srv0_def main_init_def Let_def)
  have s03: "workers (jobManager srv0) = 1" "queue_cap (jobManager srv0) = 2"
    "queue (jobManager srv0) = []"
    by (simp_all add: srv0_def main_init_def Load_def getEnvInt_def Let_def NewManager_def)
  note s0 = s01 s02 s03
  have e1: "srv1 = srv0\<lparr>jobManager := fst (CreateJob (jobManager srv0) ''job-0001'' 1 ''f1'' ''a.mp4''
                                   (ConvertRequest.OutputFormat request_webm)),
                       spawned := spawned srv0 @ [''job-0001'']\<rparr>"
    unfolding srv1_def using Handler_Convert_ok [OF Validate_request_webm, of srv0] s0(1) f
    by simp
  have s1: "files srv1 ''f1'' = Some (''a.mp4'', ''uploads/f1.mp4'')" "spawned srv1 = [''job-0001'']"
    "converting srv1 = []" "workers (jobManager srv1) = 1" "queue_cap (jobManager srv1) = 2"
    "queue (jobManager srv1) = []"
    "status_of (jobManager srv1) ''job-0001'' \<noteq> None"
    by (simp_all add: e1 s0 manager_fields status_of_CreateJob)
  have e2: "srv2 = srv1\<lparr>jobManager := fst (CreateJob (jobManager srv1) ''job-0002'' 2 ''f1'' ''a.mp4''
                                   (ConvertRequest.OutputFormat request_webm)),
                       spawned := spawned srv1 @ [''job-0002'']\<rparr>"
    unfolding srv2_def using Handler_Convert_ok [OF Validate_request_webm, of srv1] s1(1) f
    by simp
  have s2: "spawned srv2 = [''job-0001'', ''job-0002'']"
    "converting srv2 = []" "workers (jobManager srv2) = 1" "queue_cap (jobManager srv2) = 2"
    "queue (jobManager srv2) = []"
    "status_of (jobManager srv2) ''job-0001'' \<noteq> None"
    "status_of (jobManager srv2) ''job-0002'' \<noteq> None"
    by (simp_all add: e2 s1 manager_fields status_of_CreateJob)
  have e3: "srv3 = srv2\<lparr>jobManager := SetStatus (AddLog (jobManager srv2) ''job-0001''
                ''Starting conversion...'') 3 ''job-0001'' StatusProcessing,
              spawned := remove1 ''job-0001'' (spawned srv2),
              converting := converting srv2 @ [''job-0001'']\<rparr>"
    unfolding srv3_def by (rule performConvert_start_spawned) (simp add: s2)
  have s3: "spawned srv3 = [''job-0002'']"
    "converting srv3 = [''job-0001'']" "workers (jobManager srv3) = 1"
    "queue_cap (jobManager srv3) = 2" "queue (jobManager srv3) = []"
    "status_of (jobManager srv3) ''job-0001'' = Some StatusProcessing"
    "status_of (jobManager srv3) ''job-0002'' \<noteq> None"
    using s2(6,7)
    by (auto simp add: e3 s2(1-5) manager_fields status_of_SetStatus status_of_AddLog)
  have e4: "srv4 = srv3\<lparr>jobManager := SetStatus (AddLog (jobManager srv3) ''job-0002''
                ''Starting conversion...'') 4 ''job-0002'' StatusProcessing,
              spawned := remove1 ''job-0002'' (spawned srv3),
              converting := converting srv3 @ [''job-0002'']\<rparr>"
    unfolding srv4_def by (rule performConvert_start_spawned) (simp add: s3)
  have s4: "converting srv4 = [''job-0001'', ''job-0002'']" "workers (jobManager srv4) = 1"
    "queue_cap (jobManager srv4) = 2" "queue (jobManager srv4) = []"
    "status_of (jobManager srv4) ''job-0001'' = Some StatusProcessing"
    "status_of (jobManager srv4) ''job-0002'' = Some StatusProcessing"
    using s3(6,7)
    by (auto simp add: e4 s3(1-5) manager_fields status_of_SetStatus status_of_AddLog)
  have w: "worker_receive (jobManager srv4) 5 = None"
    by (simp add: worker_receive_def s4)
  have d: "(let srv0 = (main_init atoi Map.empty)\<lparr>files := [''f1'' \<mapsto> (''a.mp4'', ''uploads/f1.mp4'')]\<rparr>;
        srv1 = fst (Handler_Convert ToLower_ascii srv0 ''job-0001'' 1 (Some request_webm));
        srv2 = fst (Handler_Convert ToLower_ascii srv1 ''job-0002'' 2 (Some request_webm));
        srv3 = performConvert_start srv2 3 ''job-0001'';
        srv4 = performConvert_start srv3 4 ''job-0002''
    in workers (jobManager srv4) = 1
       \<and> queue_cap (jobManager srv4) = 2
       \<and> converting srv4 = [''job-0001'', ''job-0002'']
       \<and> status_of (jobManager srv4) ''job-0001'' = Some StatusProcessing
       \<and> status_of (jobManager srv4) ''job-0002'' = Some StatusProcessing
       \<and> queue (jobManager srv4) = []
       \<and> worker_receive (jobManager srv4) 5 = None)"
    unfolding Let_def
    using s4 w unfolding srv4_def srv3_def srv2_def srv1_def srv0_def by blast
  from a b c d show ?thesis by blast
qed

section \<open>The command builder\<close>

text \<open>
  Claim C7, as stated, fails. With no explicit preset the policy \<^verbatim>\<open>low_cpu\<close> yields
  \<^verbatim>\<open>veryfast\<close>. That is not the fastest preset: the validator admits \<^verbatim>\<open>ultrafast\<close> and
  \<^verbatim>\<open>superfast\<close>, the two presets faster than it.
\<close>

theorem low_cpu_preset_not_fastest:
  "getPreset (options_plain\<lparr>PresetMode := ''low_cpu''\<rparr>) = ''veryfast''
   \<and> ''veryfast'' \<noteq> ''ultrafast'' \<and> ''veryfast'' \<noteq> ''superfast''
   \<and> AllowedPresets ''ultrafast'' \<and> AllowedPresets ''superfast''"
  by (simp add: getPreset_def options_plain_def AllowedPresets_def)

text \<open>
  Claim C7, amended. With no explicit preset, \<^verbatim>\<open>low_cpu\<close> yields \<^verbatim>\<open>veryfast\<close>, \<^verbatim>\<open>balanced\<close>
  yields \<^verbatim>\<open>fast\<close>, \<^verbatim>\<open>quality\<close> yields \<^verbatim>\<open>slow\<close>, and any other policy yields \<^verbatim>\<open>fast\<close>; an
  explicit preset is returned as it is.
\<close>

theorem getPreset_policy:
  "getPreset (opts\<lparr>Preset := None, PresetMode := ''low_cpu''\<rparr>) = ''veryfast''
   \<and> getPreset (opts\<lparr>Preset := None, PresetMode := ''balanced''\<rparr>) = ''fast''
   \<and> getPreset (opts\<lparr>Preset := None, PresetMode := ''quality''\<rparr>) = ''slow''
   \<and> (pm \<noteq> ''low_cpu'' \<and> pm \<noteq> ''balanced'' \<and> pm \<noteq> ''quality''
        \<longrightarrow> getPreset (opts\<lparr>Preset := None, PresetMode := pm\<rparr>) = ''fast'')
   \<and> getPreset (opts\<lparr>Preset := Some p\<rparr>) = p"
  by (simp add: getPreset_def)

theorem getPreset_policy_witness:
  "''turbo'' \<noteq> ''low_cpu'' \<and> ''turbo'' \<noteq> ''balanced'' \<and> ''turbo'' \<noteq> ''quality''
   \<and> getPreset (options_plain\<lparr>Preset := None, PresetMode := ''turbo''\<rparr>) = ''fast''
   \<and> getPreset (options_plain\<lparr>Preset := None, PresetMode := ''low_cpu''\<rparr>) = ''veryfast''"
  using getPreset_policy [of options_plain "''turbo''"] by simp

text \<open>
  Claim C4 fails on the code. Under the comment \<^verbatim>\<open>// Crop to fit\<close> the cover branch of
  \<^verbatim>\<open>buildScaleFilter\<close> builds a filter with no crop in it: both scale factors are
  \<^verbatim>\<open>min(1, ...)\<close>, so the video is never scaled up, and the second stage is \<^verbatim>\<open>pad\<close>, as in
  the contain branch. For 1280 by 720:
\<close>

theorem cover_filter_pads:
  "buildScaleFilter (options_plain\<lparr>ResizeWidth := Some 1280, ResizeHeight := Some 720,
                        KeepAspect := True, FitMode := Some ''cover''\<rparr>)
     = ''scale=iw*min(1'' @ bs_comma @ ''min(1280/iw'' @ bs_comma @ ''720/ih)):ih*min(1''
       @ bs_comma @ ''min(1280/iw'' @ bs_comma @ ''720/ih)),pad=1280:720:(ow-iw)/2:(oh-ih)/2''
   \<and> Contains (buildScaleFilter (options_plain\<lparr>ResizeWidth := Some 1280, ResizeHeight := Some 720,
                        KeepAspect := True, FitMode := Some ''cover''\<rparr>)) ''pad=1280:720''
   \<and> \<not> Contains (buildScaleFilter (options_plain\<lparr>ResizeWidth := Some 1280, ResizeHeight := Some 720,
                        KeepAspect := True, FitMode := Some ''cover''\<rparr>)) ''crop''"
  by code_simp


section \<open>Request validation\<close>

lemma opt_member:
  "(case x of Some c \<Rightarrow> \<not> Q c | None \<Rightarrow> False) = (\<not> (case x of None \<Rightarrow> True | Some c \<Rightarrow> Q c))"
  by (cases x) simp_all

lemma opt_range:
  "(case x of Some c \<Rightarrow> c < lo \<or> hi < c | None \<Rightarrow> False)
     = (\<not> (case x of None \<Rightarrow> True | Some c \<Rightarrow> lo \<le> c \<and> c \<le> (hi :: int)))"
  by (cases x) auto

lemma opt_below:
  "(case x of Some c \<Rightarrow> c < lo | None \<Rightarrow> False)
     = (\<not> (case x of None \<Rightarrow> True | Some c \<Rightarrow> lo \<le> (c :: 'a :: linorder)))"
  by (cases x) auto

lemmas opt_checks = opt_member opt_range opt_below

lemma Validate_None_iff: "(Validate lower r = None) = fields_valid lower r"
  unfolding Validate_def fields_valid_def
  by (simp add: opt_checks)

lemma Validate_crf:
  assumes "fields_valid lower (r\<lparr>ConvertRequest.CRF := None, ConvertRequest.FPS := None\<rparr>)"
    and "ConvertRequest.CRF r = Some c" and "c < 18 \<or> 35 < c"
  shows "Validate lower r = Some ''crf must be between 18 and 35''"
  using assms unfolding Validate_def fields_valid_def
  by (simp add: opt_member)

lemma Validate_fps:
  assumes "fields_valid lower (r\<lparr>ConvertRequest.CRF := None, ConvertRequest.FPS := None\<rparr>)"
    and "case ConvertRequest.CRF r of None \<Rightarrow> True | Some c \<Rightarrow> 18 \<le> c \<and> c \<le> 35"
    and "ConvertRequest.FPS r = Some f" and "f < 1 \<or> 60 < f"
  shows "Validate lower r = Some ''fps must be between 1 and 60''"
  using assms unfolding Validate_def fields_valid_def
  by (simp add: opt_member opt_range)

text \<open>
  Claim C10. \<^verbatim>\<open>Validate\<close> returns no error exactly when every field is valid. When the
  other fields are valid, a CRF that is present and outside 18 to 35 gives the CRF error,
  and an FPS that is present and outside 1 to 60 gives an error, which is the FPS error
  when the CRF is absent or in range.
\<close>

theorem Validate_ranges:
  "((Validate lower r = None) = fields_valid lower r)
   \<and> (fields_valid lower (r\<lparr>ConvertRequest.CRF := None, ConvertRequest.FPS := None\<rparr>) \<longrightarrow>
        (\<forall>c. ConvertRequest.CRF r = Some c \<and> (c < 18 \<or> 35 < c)
              \<longrightarrow> Validate lower r = Some ''crf must be between 18 and 35'')
        \<and> (\<forall>f. ConvertRequest.FPS r = Some f \<and> (f < 1 \<or> 60 < f)
              \<longrightarrow> Validate lower r \<noteq> None
                  \<and> ((case ConvertRequest.CRF r of None \<Rightarrow> True | Some c \<Rightarrow> 18 \<le> c \<and> c \<le> 35)
                       \<longrightarrow> Validate lower r = Some ''fps must be between 1 and 60'')))"
proof -
  have "Validate lower r \<noteq> None"
    if "ConvertRequest.FPS r = Some f" and "f < 1 \<or> 60 < f" for f
  proof -
    from that have "\<not> fields_valid lower r"
      by (auto simp: fields_valid_def)
    then show ?thesis by (simp add: Validate_None_iff)
  qed
  then show ?thesis
    using Validate_None_iff Validate_crf Validate_fps by blast
qed

lemma fields_valid_request_webm:
  "fields_valid ToLower_ascii (request_webm\<lparr>ConvertRequest.CRF := None, ConvertRequest.FPS := None\<rparr>)"
  by (simp add: fields_valid_def request_webm_def ToLower_ascii_def AllowedOutputFormats_def
      AllowedVideoCodecs_def)

theorem Validate_ranges_witness:
  "fields_valid ToLower_ascii (request_webm\<lparr>ConvertRequest.CRF := None, ConvertRequest.FPS := None\<rparr>)
   \<and> Validate ToLower_ascii (request_webm\<lparr>ConvertRequest.CRF := Some 40\<rparr>)
       = Some ''crf must be between 18 and 35''
   \<and> Validate ToLower_ascii (request_webm\<lparr>ConvertRequest.FPS := Some 0\<rparr>)
       = Some ''fps must be between 1 and 60''
   \<and> Validate ToLower_ascii (request_webm\<lparr>ConvertRequest.FPS := Some 30\<rparr>) = None"
proof -
  have v: "fields_valid ToLower_ascii
             (request_webm\<lparr>ConvertRequest.CRF := None, ConvertRequest.FPS := None\<rparr>)"
    by (rule fields_valid_request_webm)
  have a: "Validate ToLower_ascii (request_webm\<lparr>ConvertRequest.CRF := Some 40\<rparr>)
       = Some ''crf must be between 18 and 35''"
  proof -
    have "fields_valid ToLower_ascii ((request_webm\<lparr>ConvertRequest.CRF := Some 40\<rparr>)
            \<lparr>ConvertRequest.CRF := None, ConvertRequest.FPS := None\<rparr>)"
      using v by simp
    moreover have "ConvertRequest.CRF (request_webm\<lparr>ConvertRequest.CRF := Some 40\<rparr>) = Some 40
        \<and> ((40 :: int) < 18 \<or> 35 < (40 :: int))"
      by simp
    ultimately show ?thesis
      using Validate_ranges [of ToLower_ascii "request_webm\<lparr>ConvertRequest.CRF := Some 40\<rparr>"]
      by blast
  qed
  have b: "Validate ToLower_ascii (request_webm\<lparr>ConvertRequest.FPS := Some 0\<rparr>)
       = Some ''fps must be between 1 and 60''"
  proof -
    have "fields_valid ToLower_ascii ((request_webm\<lparr>ConvertRequest.FPS := Some 0\<rparr>)
            \<lparr>ConvertRequest.CRF := None, ConvertRequest.FPS := None\<rparr>)"
      using v by simp
    moreover have "ConvertRequest.FPS (request_webm\<lparr>ConvertRequest.FPS := Some 0\<rparr>) = Some 0
        \<and> ((0 :: int) < 1 \<or> 60 < (0 :: int))"
      by simp
    moreover have "case ConvertRequest.CRF (request_webm\<lparr>ConvertRequest.FPS := Some 0\<rparr>) of
                     None \<Rightarrow> True | Some c \<Rightarrow> 18 \<le> c \<and> c \<le> 35"
      by (simp add: request_webm_def)
    ultimately show ?thesis
      using Validate_ranges [of ToLower_ascii "request_webm\<lparr>ConvertRequest.FPS := Some 0\<rparr>"]
      by blast
  qed
  have c: "Validate ToLower_ascii (request_webm\<lparr>ConvertRequest.FPS := Some 30\<rparr>) = None"
  proof -
    have "fields_valid ToLower_ascii (request_webm\<lparr>ConvertRequest.FPS := Some 30\<rparr>)"
      by (simp add: fields_valid_def request_webm_def ToLower_ascii_def AllowedOutputFormats_def
          AllowedVideoCodecs_def)
    then show ?thesis
      using Validate_ranges [of ToLower_ascii "request_webm\<lparr>ConvertRequest.FPS := Some 30\<rparr>"]
      by blast
  qed
  from v a b c show ?thesis by blast
qed

section \<open>Progress events\<close>

lemma scan_progress_event:
  "(c, t, ms) \<in> set (scan_progress parseFloat hasHandler totalDuration outp) \<Longrightarrow>
   hasHandler \<and> t = 1
     \<and> (\<exists>d. totalDuration = Some d \<and> 0 < d \<and> c = (ms / 1000) / d)
     \<and> (\<exists>l \<in> set outp. HasPrefix l ''out_time_ms=''
            \<and> parseFloat (TrimPrefix l ''out_time_ms='') = Some ms)"
proof (induction outp)
  case Nil
  then show ?case by simp
next
  case (Cons x rest)
  show ?case
  proof (cases "(c, t, ms) \<in> set (scan_progress parseFloat hasHandler totalDuration rest)")
    case True
    from Cons.IH [OF True] show ?thesis by auto
  next
    case False
    have h: "hasHandler \<and> HasPrefix x ''out_time_ms=''"
    proof (rule ccontr)
      assume "\<not> (hasHandler \<and> HasPrefix x ''out_time_ms='')"
      with Cons.prems False show False by simp
    qed
    with False Cons.prems obtain v where v: "parseFloat (TrimPrefix x ''out_time_ms='') = Some v"
      by (cases "parseFloat (TrimPrefix x ''out_time_ms='')") simp_all
    with h False Cons.prems obtain d where d: "totalDuration = Some d"
      by (cases totalDuration) simp_all
    have pos: "0 < d"
    proof (rule ccontr)
      assume "\<not> 0 < d"
      with h v d Cons.prems False show False by simp
    qed
    with h v d False Cons.prems have "c = (v / 1000) / d" "t = 1" "ms = v"
      by simp_all
    with pos have "0 < d" "c = (ms / 1000) / d" "t = 1" "ms = v"
      by simp_all
    with h v d show ?thesis by simp
  qed
qed

lemma fraction_in_unit:
  fixes ms d :: real
  assumes "0 < d"
  shows "(0 \<le> (ms / 1000) / d \<and> (ms / 1000) / d \<le> 1) = (0 \<le> ms \<and> ms \<le> 1000 * d)"
  using assms by (auto simp: field_simps zero_le_divide_iff)

lemma parse_5000: "ParseFloat_integer ''5000'' = Some 5000"
  by (simp add: ParseFloat_integer_def)

lemma parse_neg_1000: "ParseFloat_integer ''-1000'' = Some (- 1000)"
  by (simp add: ParseFloat_integer_def)

lemma prefix_facts:
  "HasPrefix ''out_time_ms=5000'' ''out_time_ms=''"
  "HasPrefix ''out_time_ms=-1000'' ''out_time_ms=''"
  "\<not> HasPrefix ''frame=10'' ''out_time_ms=''"
  "\<not> HasPrefix ''progress=continue'' ''out_time_ms=''"
  "TrimPrefix ''out_time_ms=5000'' ''out_time_ms='' = ''5000''"
  "TrimPrefix ''out_time_ms=-1000'' ''out_time_ms='' = ''-1000''"
  by (simp_all add: TrimPrefix_def)


lemma scan_eval:
  "scan_progress ParseFloat_integer True (Some 2) [''frame=10'', ''out_time_ms=5000'', ''progress=continue'']
     = [(5 / 2, 1, 5000)]"
  "scan_progress ParseFloat_integer True (Some 2) [''out_time_ms=-1000''] = [(- (1 / 2), 1, - 1000)]"
  "scan_progress ParseFloat_integer True (Some 10) [''out_time_ms=5000''] = [(1 / 2, 1, 5000)]"
  "scan_progress ParseFloat_integer True None [''out_time_ms=5000''] = []"
  "scan_progress ParseFloat_integer True (Some 0) [''out_time_ms=5000''] = []"
  by (simp_all only: scan_progress.simps prefix_facts parse_5000 parse_neg_1000 simp_thms
      if_True if_False option.case append_Nil append_Nil2 append_Cons)
     (simp_all)

text \<open>
  Claim C8, as stated, fails: the fraction is not kept within 0 and 1. With a total
  duration of 2 seconds the line \<^verbatim>\<open>out_time_ms=5000\<close> gives the fraction 5/2, and the line
  \<^verbatim>\<open>out_time_ms=-1000\<close> gives -1/2.
\<close>

theorem progress_fraction_unbounded:
  "scan_progress ParseFloat_integer True (Some 2) [''frame=10'', ''out_time_ms=5000'', ''progress=continue'']
     = [(5 / 2, 1, 5000)]
   \<and> (1 :: real) < 5 / 2
   \<and> scan_progress ParseFloat_integer True (Some 2) [''out_time_ms=-1000''] = [(- (1 / 2), 1, - 1000)]
   \<and> - (1 / 2) < (0 :: real)"
  by (simp only: scan_eval) simp

text \<open>
  Claim C8, amended. Every call of the progress handler is made with a handler present and
  a known, positive total duration \<open>d\<close>, for a line \<^verbatim>\<open>out_time_ms=...\<close> whose value parses
  to \<open>ms\<close>; its arguments are the fraction \<open>(ms / 1000) / d\<close>, the total 1 and \<open>ms\<close>. The
  fraction is not clamped: it lies between 0 and 1 exactly when \<open>ms\<close> lies between 0 and
  \<open>1000 * d\<close>.
\<close>

theorem progress_events_formula:
  "(c, t, ms) \<in> set (scan_progress parseFloat hasHandler totalDuration outp) \<longrightarrow>
     hasHandler \<and> t = 1
     \<and> (\<exists>d. totalDuration = Some d \<and> 0 < d \<and> c = (ms / 1000) / d
            \<and> ((0 \<le> c \<and> c \<le> 1) = (0 \<le> ms \<and> ms \<le> 1000 * d)))
     \<and> (\<exists>line \<in> set outp. HasPrefix line ''out_time_ms=''
            \<and> parseFloat (TrimPrefix line ''out_time_ms='') = Some ms)"
  using scan_progress_event [of c t ms parseFloat hasHandler totalDuration outp] fraction_in_unit
  by blast

theorem progress_events_formula_witness:
  "(1 / 2, 1, 5000) \<in> set (scan_progress ParseFloat_integer True (Some 10) [''out_time_ms=5000''])
   \<and> (1 / 2 :: real) = (5000 / 1000) / 10
   \<and> scan_progress ParseFloat_integer True None [''out_time_ms=5000''] = []
   \<and> scan_progress ParseFloat_integer True (Some 0) [''out_time_ms=5000''] = []"
proof -
  have m: "(1 / 2, 1, 5000) \<in> set (scan_progress ParseFloat_integer True (Some 10) [''out_time_ms=5000''])"
    by (simp only: scan_eval) simp
  have "\<exists>d. Some (10::real) = Some d \<and> 0 < d \<and> (1 / 2 :: real) = (5000 / 1000) / d"
    using progress_events_formula [of "1 / 2" 1 5000 ParseFloat_integer True "Some 10"
        "[''out_time_ms=5000'']"] m by blast
  then have e: "(1 / 2 :: real) = (5000 / 1000) / 10" by simp
  have n: "scan_progress ParseFloat_integer True None [''out_time_ms=5000''] = []"
    "scan_progress ParseFloat_integer True (Some 0) [''out_time_ms=5000''] = []"
    by (simp_all only: scan_eval)
  from m e n show ?thesis by blast
qed


section \<open>Gating rules of the argument list\<close>
























end
